theory Spec2Isabelle
  imports Main "HOL-Library.AList" "HOL-Library.Sublist"
begin

section \<open>Data model\<close>

text \<open>
  Exceptions of the Python source are values. \<open>NotFittedError\<close> is sklearn's exception
  raised by \<open>check_is_fitted\<close>; it inherits from both \<open>ValueError\<close> and
  \<open>AttributeError\<close>, which matters for the \<open>except AttributeError\<close> handlers of
  \<open>default.py\<close>.
\<close>

datatype error =
    TypeError string
  | ValueError string
  | AttributeError string
  | KeyError string
  | NotFittedError string
  | OtherError string

fun is_TypeError :: "error \<Rightarrow> bool" where
  "is_TypeError (TypeError m) = True"
| "is_TypeError e = False"

fun is_AttributeError :: "error \<Rightarrow> bool" where
  "is_AttributeError (AttributeError m) = True"
| "is_AttributeError (NotFittedError m) = True"
| "is_AttributeError e = False"

text \<open>
  A pandas Series is its dtype and its cells by row position (the default RangeIndex);
  a missing entry is \<open>None\<close>. The dtype is identified by its numpy kind character, on
  which \<open>is_numeric_dtype\<close> and \<open>is_string_dtype\<close> of \<open>pandas.api.types\<close> decide.
\<close>

datatype dtype =
    Kind_b | Kind_i | Kind_u | Kind_f | Kind_c
  | Kind_O | Kind_S | Kind_U
  | Kind_M | Kind_m | Kind_V

fun is_numeric_dtype :: "dtype \<Rightarrow> bool" where
  "is_numeric_dtype Kind_b = True"
| "is_numeric_dtype Kind_i = True"
| "is_numeric_dtype Kind_u = True"
| "is_numeric_dtype Kind_f = True"
| "is_numeric_dtype Kind_c = True"
| "is_numeric_dtype k = False"

fun is_string_dtype :: "dtype \<Rightarrow> bool" where
  "is_string_dtype Kind_O = True"
| "is_string_dtype Kind_S = True"
| "is_string_dtype Kind_U = True"
| "is_string_dtype k = False"

type_synonym 'v cell = "'v option"

record 'v series =
  dtype :: dtype
  cells :: "'v cell list"

text \<open>Series objects live in a store, so that in-place mutation and identity can be told apart.\<close>

type_synonym 'v heap = "nat \<Rightarrow> 'v series option"

text \<open>
  What \<open>impute\<close> of a pluggable imputer hands back for the right-hand side of
  \<open>X.loc[imp_ix, column] = ...\<close>: one value broadcast to every missing row, or one value
  per missing row.
\<close>

datatype 'v impute_result = Scalar "'v cell" | Values "'v cell list"

subsection \<open>External pluggable imputers\<close>

text \<open>
  The statistical imputers (\<open>MeanImputer\<close>, \<open>ModeImputer\<close>, ...) are not part of the
  verified sources. An instance is its method table together with its internal state
  \<open>'s\<close>; the table holds exactly the attributes the verified code touches.
  \<open>ext_fit\<close> gives the instance after the call and the value the call returned
  (\<open>None\<close> is Python's \<open>None\<close>, otherwise an object of the same class).
\<close>

record ('v, 's) ext_methods =
  ext_strategy :: "'s \<Rightarrow> string"
  ext_fit :: "'s \<Rightarrow> 'v series \<Rightarrow> error + ('s \<times> 's option)"
  ext_stat_strategy :: "'s \<Rightarrow> error + string option"
  ext_impute :: "'s \<Rightarrow> 'v series \<Rightarrow> error + 'v impute_result"
  ext_truthy :: "'s \<Rightarrow> bool"
  ext_transform :: "'s \<Rightarrow> 'v heap \<Rightarrow> nat \<Rightarrow> (error + nat) \<times> 'v heap"

datatype ('v, 's) ext_obj = ExtObj (methods: "('v, 's) ext_methods") (state: 's)

definition obj_strategy :: "('v, 's) ext_obj \<Rightarrow> string" where
  "obj_strategy ob = ext_strategy (methods ob) (state ob)"

definition obj_fit ::
  "('v, 's) ext_obj \<Rightarrow> 'v series \<Rightarrow> error + (('v, 's) ext_obj \<times> ('v, 's) ext_obj option)" where
  "obj_fit ob X =
     (case ext_fit (methods ob) (state ob) X of
        Inl e \<Rightarrow> Inl e
      | Inr (s', r) \<Rightarrow> Inr (ExtObj (methods ob) s', map_option (ExtObj (methods ob)) r))"

definition obj_stat_strategy :: "('v, 's) ext_obj \<Rightarrow> error + string option" where
  "obj_stat_strategy ob = ext_stat_strategy (methods ob) (state ob)"

definition obj_impute :: "('v, 's) ext_obj \<Rightarrow> 'v series \<Rightarrow> error + 'v impute_result" where
  "obj_impute ob X = ext_impute (methods ob) (state ob) X"

definition obj_truthy :: "('v, 's) ext_obj \<Rightarrow> bool" where
  "obj_truthy ob = ext_truthy (methods ob) (state ob)"

definition obj_transform ::
  "('v, 's) ext_obj \<Rightarrow> 'v heap \<Rightarrow> nat \<Rightarrow> (error + nat) \<times> 'v heap" where
  "obj_transform ob h X = ext_transform (methods ob) (state ob) h X"

text \<open>
  Keyword arguments. An \<open>atom\<close> is a plain Python value; \<open>kwargs\<close> is a dict of them.
  A class (or any other object handed over where a class is expected) is seen through
  \<open>str\<close>, \<open>__name__\<close> (absent: \<open>None\<close>), \<open>hasattr(_, "fit_transform")\<close> and its call.
\<close>

datatype atom = ANone | AStr string | AInt int | ABool bool

type_synonym kwargs = "(string \<times> atom) list"

record ('v, 's, 'k) ext_class =
  cls_str :: string
  cls_name :: "string option"
  cls_has_fit_transform :: bool
  cls_call :: "'k option \<Rightarrow> error + ('v, 's) ext_obj"

datatype ('v, 's) pyval =
    PyAtom atom
  | PyDict kwargs
  | PyObj "('v, 's, kwargs) ext_class"

type_synonym ('v, 's) imp_params = "(string \<times> ('v, 's) pyval) list"

section \<open>default.py\<close>

subsection \<open>DefaultBaseImputer\<close>

record ('v, 's) default_stats =
  param :: "('v, 's) ext_obj option"
  strategy :: "string option"

text \<open>\<open>series_statistics\<close> is the attribute \<open>statistics_\<close>; \<open>None\<close> while it is not set.\<close>

record ('v, 's) default_imputer =
  num_kwgs :: "kwargs option"
  cat_kwgs :: "kwargs option"
  num_imputer :: "('v, 's) ext_obj"
  cat_imputer :: "('v, 's) ext_obj"
  series_statistics :: "('v, 's) default_stats option"

text \<open>The setters of \<open>num_kwgs\<close> and \<open>cat_kwgs\<close>: \<open>None\<close> or a dict, anything else is refused.\<close>

fun set_num_kwgs :: "('v, 's) pyval \<Rightarrow> error + kwargs option" where
  "set_num_kwgs (PyAtom ANone) = Inr None"
| "set_num_kwgs (PyDict d) = Inr (Some d)"
| "set_num_kwgs v = Inl (ValueError ''num_kwgs must be dict of args used to init num_imputer.'')"

fun set_cat_kwgs :: "('v, 's) pyval \<Rightarrow> error + kwargs option" where
  "set_cat_kwgs (PyAtom ANone) = Inr None"
| "set_cat_kwgs (PyDict d) = Inr (Some d)"
| "set_cat_kwgs v = Inl (ValueError ''cat_kwgs must be dict of args used to init cat_imputer.'')"

definition endswith :: "string \<Rightarrow> string \<Rightarrow> bool" where
  "endswith s suf = suffix suf s"

text \<open>
  The setters of \<open>num_imputer\<close> and \<open>cat_imputer\<close>. An \<open>AttributeError\<close> anywhere in the
  \<open>try\<close> block (a missing \<open>__name__\<close>, or one raised by the constructor) becomes a
  \<open>ValueError\<close>; the two \<open>ValueError\<close>s raised in the block and every other exception
  of the constructor pass through.
\<close>

definition set_num_imputer ::
  "kwargs option \<Rightarrow> ('v, 's, kwargs) ext_class \<Rightarrow> error + ('v, 's) ext_obj" where
  "set_num_imputer kw imp =
     (case cls_name imp of
        None \<Rightarrow> Inl (ValueError (cls_str imp @ '' is not an instance of an Imputer''))
      | Some n \<Rightarrow>
          if \<not> endswith n ''Imputer''
          then Inl (ValueError (cls_str imp @ '' must be a class ending in Imputer''))
          else if \<not> cls_has_fit_transform imp
          then Inl (ValueError ''Imputer must implement fit_transform method.'')
          else (case cls_call imp kw of
                  Inl e \<Rightarrow>
                    if is_AttributeError e
                    then Inl (ValueError (cls_str imp @ '' is not an instance of an Imputer''))
                    else Inl e
                | Inr ob \<Rightarrow> Inr ob))"

definition set_cat_imputer ::
  "kwargs option \<Rightarrow> ('v, 's, kwargs) ext_class \<Rightarrow> error + ('v, 's) ext_obj" where
  "set_cat_imputer kw imp =
     (case cls_name imp of
        None \<Rightarrow> Inl (ValueError (cls_str imp @ '' is not a valid Imputer''))
      | Some n \<Rightarrow>
          if \<not> endswith n ''Imputer''
          then Inl (ValueError (cls_str imp @ '' must be an Imputer class from autoimpute''))
          else if \<not> cls_has_fit_transform imp
          then Inl (ValueError ''Imputer must implement fit_transform method.'')
          else (case cls_call imp kw of
                  Inl e \<Rightarrow>
                    if is_AttributeError e
                    then Inl (ValueError (cls_str imp @ '' is not a valid Imputer''))
                    else Inl e
                | Inr ob \<Rightarrow> Inr ob))"

text \<open>
  A value handed over as \<open>num_imputer\<close> or \<open>cat_imputer\<close> that is no object with
  attributes of its own (an atom or a dict) has no \<open>__name__\<close>; its \<open>str\<close> goes into
  the message. Strings are taken to need no escaping in their \<open>repr\<close>.
\<close>

fun str_nat :: "nat \<Rightarrow> string" where
  "str_nat n =
     (if n < 10 then [''0123456789'' ! n]
      else str_nat (n div 10) @ [''0123456789'' ! (n mod 10)])"

declare str_nat.simps [simp del]

definition str_int :: "int \<Rightarrow> string" where
  "str_int i = (if i < 0 then ''-'' @ str_nat (nat (- i)) else str_nat (nat i))"

fun atom_str :: "atom \<Rightarrow> string" where
  "atom_str ANone = ''None''"
| "atom_str (AStr s) = s"
| "atom_str (AInt i) = str_int i"
| "atom_str (ABool b) = (if b then ''True'' else ''False'')"

definition quote :: "string \<Rightarrow> string" where
  "quote s = [CHR 39] @ s @ [CHR 39]"

fun atom_repr :: "atom \<Rightarrow> string" where
  "atom_repr (AStr s) = quote s"
| "atom_repr a = atom_str a"

fun join :: "string \<Rightarrow> string list \<Rightarrow> string" where
  "join sep [] = []"
| "join sep [x] = x"
| "join sep (x # y # ys) = x @ sep @ join sep (y # ys)"

definition dict_str :: "kwargs \<Rightarrow> string" where
  "dict_str d = ''{'' @ join '', '' (map (\<lambda>(k, a). quote k @ '': '' @ atom_repr a) d) @ ''}''"

fun as_class :: "('v, 's) pyval \<Rightarrow> ('v, 's, kwargs) ext_class" where
  "as_class (PyObj c) = c"
| "as_class (PyAtom a) =
     \<lparr>cls_str = atom_str a, cls_name = None, cls_has_fit_transform = False,
      cls_call = (\<lambda>kw. Inl (TypeError ''object is not callable''))\<rparr>"
| "as_class (PyDict d) =
     \<lparr>cls_str = dict_str d, cls_name = None, cls_has_fit_transform = False,
      cls_call = (\<lambda>kw. Inl (TypeError ''object is not callable''))\<rparr>"

text \<open>\<open>DefaultBaseImputer.__init__\<close>: the four attributes are set in this order.\<close>

definition DefaultBaseImputer_init ::
  "('v, 's) pyval \<Rightarrow> ('v, 's) pyval \<Rightarrow> ('v, 's) pyval \<Rightarrow> ('v, 's) pyval
   \<Rightarrow> error + ('v, 's) default_imputer" where
  "DefaultBaseImputer_init num_imp cat_imp num_kw cat_kw =
     (case set_num_kwgs num_kw of
        Inl e \<Rightarrow> Inl e
      | Inr nk \<Rightarrow>
     (case set_cat_kwgs cat_kw of
        Inl e \<Rightarrow> Inl e
      | Inr ck \<Rightarrow>
     (case set_num_imputer nk (as_class num_imp) of
        Inl e \<Rightarrow> Inl e
      | Inr ni \<Rightarrow>
     (case set_cat_imputer ck (as_class cat_imp) of
        Inl e \<Rightarrow> Inl e
      | Inr ci \<Rightarrow>
          Inr \<lparr>num_kwgs = nk, cat_kwgs = ck, num_imputer = ni, cat_imputer = ci,
               series_statistics = None\<rparr>))))"

text \<open>
  \<open>DefaultBaseImputer.fit\<close>: the \<open>if\<close>/\<open>elif\<close>/\<open>else\<close> on the dtype. In the dict
  literal the sub-imputer is fitted first and its \<open>strategy\<close> read afterwards.
\<close>

definition DefaultBaseImputer_fit ::
  "('v, 's) default_imputer \<Rightarrow> 'v series \<Rightarrow> error + ('v, 's) default_imputer" where
  "DefaultBaseImputer_fit self X =
     (if is_numeric_dtype (dtype X) then
        (case obj_fit (num_imputer self) X of
           Inl e \<Rightarrow> Inl e
         | Inr (ni, r) \<Rightarrow>
             Inr (self\<lparr>num_imputer := ni,
                       series_statistics :=
                         Some \<lparr>param = r, strategy = Some (obj_strategy ni)\<rparr>\<rparr>))
      else if is_string_dtype (dtype X) then
        (case obj_fit (cat_imputer self) X of
           Inl e \<Rightarrow> Inl e
         | Inr (ci, r) \<Rightarrow>
             Inr (self\<lparr>cat_imputer := ci,
                       series_statistics :=
                         Some \<lparr>param = r, strategy = Some (obj_strategy ci)\<rparr>\<rparr>))
      else Inr (self\<lparr>series_statistics := Some \<lparr>param = None, strategy = None\<rparr>\<rparr>))"

text \<open>
  \<open>DefaultBaseImputer.transform\<close> on the Series at address \<open>X\<close>: the result is the
  returned reference (or the exception) and the store after the call.
\<close>

definition DefaultBaseImputer_transform ::
  "('v, 's) default_imputer \<Rightarrow> 'v heap \<Rightarrow> nat \<Rightarrow> (error + nat) \<times> 'v heap" where
  "DefaultBaseImputer_transform self h X =
     (case series_statistics self of
        None \<Rightarrow> (Inl (NotFittedError ''statistics_''), h)
      | Some st \<Rightarrow>
          (case param st of
             None \<Rightarrow> (Inr X, h)
           | Some imp \<Rightarrow>
               if obj_truthy imp then
                 (case obj_transform imp h X of
                    (Inl e, h') \<Rightarrow> (Inl e, h')
                  | (Inr r, h') \<Rightarrow> (Inr X, h'))
               else (Inr X, h)))"

subsection \<open>DefaultSingleImputer\<close>

text \<open>
  The class defines \<open>__init__\<close>, \<open>fit\<close> and \<open>transform\<close>, and inherits from
  \<open>DefaultBaseImputer\<close>, \<open>BaseEstimator\<close> and \<open>TransformerMixin\<close>. The default
  argument classes \<open>MeanImputer\<close> and \<open>ModeImputer\<close> are external and are parameters.
\<close>

definition DefaultSingleImputer_strategy :: string where
  "DefaultSingleImputer_strategy = ''default''"

definition DefaultSingleImputer_fit ::
  "('v, 's) default_imputer \<Rightarrow> 'v series \<Rightarrow> error + ('v, 's) default_imputer" where
  "DefaultSingleImputer_fit self X = DefaultBaseImputer_fit self X"

definition DefaultSingleImputer_transform ::
  "('v, 's) default_imputer \<Rightarrow> 'v heap \<Rightarrow> nat \<Rightarrow> (error + nat) \<times> 'v heap" where
  "DefaultSingleImputer_transform self h X =
     (case DefaultBaseImputer_transform self h X of
        (Inl e, h') \<Rightarrow> (Inl e, h')
      | (Inr r, h') \<Rightarrow> (Inr X, h'))"

section \<open>single_imputer.py\<close>

subsection \<open>Tables, the registry and the external collaborators\<close>

text \<open>
  A DataFrame is its columns in order, each a Series, with unique column labels.
  \<open>X[column]\<close> raises \<open>KeyError\<close> for a label that is not there.
\<close>

type_synonym 'v table = "(string \<times> 'v series) list"

definition columns :: "'v table \<Rightarrow> string list" where
  "columns X = map fst X"

definition getitem :: "'v table \<Rightarrow> string \<Rightarrow> error + 'v series" where
  "getitem X column = (case map_of X column of None \<Rightarrow> Inl (KeyError column) | Some s \<Rightarrow> Inr s)"

text \<open>The strategy names of \<open>method_names\<close>, as the class docstring lists them.\<close>

definition DEFAULT :: string where "DEFAULT = ''default''"
definition MEAN :: string where "MEAN = ''mean''"
definition MEDIAN :: string where "MEDIAN = ''median''"
definition MODE :: string where "MODE = ''mode''"
definition RANDOM :: string where "RANDOM = ''random''"
definition NORM :: string where "NORM = ''norm''"
definition CATEGORICAL :: string where "CATEGORICAL = ''categorical''"
definition INTERPOLATE :: string where "INTERPOLATE = ''interpolate''"

datatype strategy_arg =
    StrategyStr string
  | StrategyIter "string list"
  | StrategyDict "(string \<times> string) list"

text \<open>
  What the module imports and does not define: the decorator \<open>check_nan_columns\<close> (a check
  of the table that raises or lets the call through), the helpers \<open>check_strategy_fit\<close>
  and \<open>_fit_init_params\<close> of \<open>BaseImputer\<close>, and the seven statistical imputer classes.
\<close>

record ('v, 's) env =
  check_nan_columns :: "'v table \<Rightarrow> error option"
  check_strategy_fit :: "strategy_arg \<Rightarrow> string list \<Rightarrow> error + (string \<times> string) list"
  fit_init_params ::
    "string \<Rightarrow> string \<Rightarrow> (string \<times> ('v, 's) imp_params) list option
     \<Rightarrow> error + ('v, 's) imp_params option"
  MeanImputer :: "('v, 's, ('v, 's) imp_params) ext_class"
  MedianImputer :: "('v, 's, ('v, 's) imp_params) ext_class"
  ModeImputer :: "('v, 's, ('v, 's) imp_params) ext_class"
  RandomImputer :: "('v, 's, ('v, 's) imp_params) ext_class"
  NormImputer :: "('v, 's, ('v, 's) imp_params) ext_class"
  CategoricalImputer :: "('v, 's, ('v, 's) imp_params) ext_class"
  InterpolateImputer :: "('v, 's, ('v, 's) imp_params) ext_class"

text \<open>A class of the registry, and an instance as the Statistics Store holds it.\<close>

datatype ('v, 's) imputer_class =
    DefaultSingleImputer
  | ExternalClass "('v, 's, ('v, 's) imp_params) ext_class"

datatype ('v, 's) imputer =
    Default "('v, 's) default_imputer"
  | External "('v, 's) ext_obj"

definition strategies :: "('v, 's) env \<Rightarrow> (string \<times> ('v, 's) imputer_class) list" where
  "strategies env =
     [(DEFAULT, DefaultSingleImputer),
      (MEAN, ExternalClass (MeanImputer env)),
      (MEDIAN, ExternalClass (MedianImputer env)),
      (MODE, ExternalClass (ModeImputer env)),
      (RANDOM, ExternalClass (RandomImputer env)),
      (NORM, ExternalClass (NormImputer env)),
      (CATEGORICAL, ExternalClass (CategoricalImputer env)),
      (INTERPOLATE, ExternalClass (InterpolateImputer env))]"

subsection \<open>Constructing and calling the imputers of the registry\<close>

text \<open>
  \<open>DefaultSingleImputer.__init__\<close> with its default arguments. A sub-imputer class is
  called with a dict of atoms.
\<close>

definition as_sub_class ::
  "('v, 's, ('v, 's) imp_params) ext_class \<Rightarrow> ('v, 's, kwargs) ext_class" where
  "as_sub_class c =
     \<lparr>cls_str = cls_str c, cls_name = cls_name c,
      cls_has_fit_transform = cls_has_fit_transform c,
      cls_call = (\<lambda>kw. cls_call c (map_option (map (\<lambda>(k, a). (k, PyAtom a))) kw))\<rparr>"

definition keyword :: "('v, 's) imp_params \<Rightarrow> string \<Rightarrow> ('v, 's) pyval \<Rightarrow> ('v, 's) pyval" where
  "keyword d k dflt = (case map_of d k of None \<Rightarrow> dflt | Some v \<Rightarrow> v)"

definition DefaultSingleImputer_init ::
  "('v, 's) env \<Rightarrow> ('v, 's) imp_params option \<Rightarrow> error + ('v, 's) default_imputer" where
  "DefaultSingleImputer_init env kw =
     (let d = (case kw of None \<Rightarrow> [] | Some d \<Rightarrow> d) in
      case filter (\<lambda>k. k \<notin> set [''num_imputer'', ''cat_imputer'', ''num_kwgs'', ''cat_kwgs''])
             (map fst d) of
        k # ks \<Rightarrow>
          Inl (TypeError (''__init__() got an unexpected keyword argument '' @ quote k))
      | [] \<Rightarrow>
          DefaultBaseImputer_init
            (keyword d ''num_imputer'' (PyObj (as_sub_class (MeanImputer env))))
            (keyword d ''cat_imputer'' (PyObj (as_sub_class (ModeImputer env))))
            (keyword d ''num_kwgs'' (PyAtom ANone))
            (keyword d ''cat_kwgs'' (PyDict [(''fill_strategy'', AStr ''random'')])))"

text \<open>\<open>imp()\<close> and \<open>imp(**imp_params)\<close>, and \<open>imp.__name__\<close>.\<close>

fun construct ::
  "('v, 's) env \<Rightarrow> ('v, 's) imputer_class \<Rightarrow> ('v, 's) imp_params option
   \<Rightarrow> error + ('v, 's) imputer" where
  "construct env DefaultSingleImputer kw =
     (case DefaultSingleImputer_init env kw of Inl e \<Rightarrow> Inl e | Inr d \<Rightarrow> Inr (Default d))"
| "construct env (ExternalClass c) kw =
     (case cls_call c kw of Inl e \<Rightarrow> Inl e | Inr ob \<Rightarrow> Inr (External ob))"

fun class_name :: "('v, 's) imputer_class \<Rightarrow> string option" where
  "class_name DefaultSingleImputer = Some ''DefaultSingleImputer''"
| "class_name (ExternalClass c) = cls_name c"

text \<open>
  The three attributes the orchestrator uses on a stored imputer: \<open>fit\<close>,
  \<open>statistics_["strategy"]\<close> and \<open>impute\<close>. \<open>DefaultSingleImputer\<close> and its base classes
  define no \<open>impute\<close>, so the attribute lookup raises.
\<close>

fun imputer_fit :: "('v, 's) imputer \<Rightarrow> 'v series \<Rightarrow> error + ('v, 's) imputer" where
  "imputer_fit (Default d) X =
     (case DefaultSingleImputer_fit d X of Inl e \<Rightarrow> Inl e | Inr d' \<Rightarrow> Inr (Default d'))"
| "imputer_fit (External ob) X =
     (case obj_fit ob X of Inl e \<Rightarrow> Inl e | Inr (ob', r) \<Rightarrow> Inr (External ob'))"

fun imputer_stat_strategy :: "('v, 's) imputer \<Rightarrow> error + string option" where
  "imputer_stat_strategy (Default d) =
     (case series_statistics d of
        None \<Rightarrow>
          Inl (AttributeError
                 (quote ''DefaultSingleImputer'' @ '' object has no attribute '' @ quote ''statistics_''))
      | Some st \<Rightarrow> Inr (strategy st))"
| "imputer_stat_strategy (External ob) = obj_stat_strategy ob"

fun imputer_impute :: "('v, 's) imputer \<Rightarrow> 'v series \<Rightarrow> error + 'v impute_result" where
  "imputer_impute (Default d) X =
     Inl (AttributeError
            (quote ''DefaultSingleImputer'' @ '' object has no attribute '' @ quote ''impute''))"
| "imputer_impute (External ob) X = obj_impute ob X"

subsection \<open>SingleImputer\<close>

text \<open>
  The attributes of a \<open>SingleImputer\<close>. \<open>strats\<close>, \<open>statistics\<close> and \<open>imputed\<close> are
  \<open>_strats\<close>, \<open>statistics_\<close> and \<open>imputed_\<close>, \<open>None\<close> while the attribute is not set;
  a dict is its items in insertion order.
\<close>

record ('v, 's) single_imputer =
  strategy_arg :: strategy_arg
  imp_kwgs :: "(string \<times> ('v, 's) imp_params) list option"
  copy :: bool
  verbose :: bool
  strats :: "(string \<times> string) list option"
  statistics :: "(string \<times> ('v, 's) imputer) list option"
  imputed :: "(string \<times> nat list) list option"

text \<open>\<open>_transform_strategy_validator\<close>: \<open>None\<close> when it returns, the exception otherwise.\<close>

definition transform_strategy_validator ::
  "('v, 's) single_imputer \<Rightarrow> 'v table \<Rightarrow> error option" where
  "transform_strategy_validator self X =
     (case statistics self of
        None \<Rightarrow> Some (NotFittedError ''statistics_'')
      | Some st \<Rightarrow>
          (case strats self of
             None \<Rightarrow>
               Some (AttributeError
                       (quote ''SingleImputer'' @ '' object has no attribute '' @ quote ''_strats''))
           | Some ss \<Rightarrow>
               let X_cols = columns X;
                   fit_cols = set (map fst ss);
                   diff_fit = fit_cols - set X_cols
               in if diff_fit \<noteq> {}
                  then Some (ValueError ''Same columns that were fit must appear in transform.'')
                  else None))"

text \<open>
  One pass of the loop of \<open>fit\<close> for \<open>column\<close> and \<open>method\<close>: the new imputer, fitted,
  and what was printed; or the exception and what was printed before it.
\<close>

definition fit_column ::
  "('v, 's) env \<Rightarrow> ('v, 's) single_imputer \<Rightarrow> 'v table \<Rightarrow> string \<Rightarrow> string
   \<Rightarrow> (error + ('v, 's) imputer) \<times> string list" where
  "fit_column env self X column method =
     (case map_of (strategies env) method of
        None \<Rightarrow> (Inl (KeyError method), [])
      | Some imp \<Rightarrow>
     (case fit_init_params env column method (imp_kwgs self) of
        Inl e \<Rightarrow> (Inl e, [])
      | Inr imp_params \<Rightarrow>
     (case construct env imp imp_params of
        Inl te \<Rightarrow>
          if is_TypeError te then
            (case class_name imp of
               None \<Rightarrow> (Inl (AttributeError ''__name__''), [])
             | Some name \<Rightarrow>
                 (Inl (ValueError (''Invalid arguments passed to '' @ name @ '' __init__ method.'')),
                  []))
          else (Inl te, [])
      | Inr imputer \<Rightarrow>
          let out = (if verbose self
                     then [''Column: '' @ column @ '', Strategy: '' @ method] else [])
          in (case getitem X column of
                Inl e \<Rightarrow> (Inl e, out)
              | Inr col \<Rightarrow>
                  (case imputer_fit imputer col of
                     Inl e \<Rightarrow> (Inl e, out)
                   | Inr imputer' \<Rightarrow> (Inr imputer', out))))))"

text \<open>
  The loop over \<open>self._strats.items()\<close>. It carries \<open>self.statistics_\<close> and the console;
  an exception ends it and leaves both as they are at that point.
\<close>

fun fit_loop ::
  "('v, 's) env \<Rightarrow> ('v, 's) single_imputer \<Rightarrow> 'v table \<Rightarrow> (string \<times> string) list
   \<Rightarrow> (string \<times> ('v, 's) imputer) list \<Rightarrow> string list
   \<Rightarrow> (string \<times> ('v, 's) imputer) list \<times> string list \<times> error option" where
  "fit_loop env self X [] st out = (st, out, None)"
| "fit_loop env self X ((column, method) # rest) st out =
     (case fit_column env self X column method of
        (Inl e, pr) \<Rightarrow> (st, out @ pr, Some e)
      | (Inr imputer, pr) \<Rightarrow>
          fit_loop env self X rest (AList.update column imputer st) (out @ pr))"

text \<open>
  \<open>fit\<close>, with its decorator: the imputer after the call, the console, and the exception
  if one was raised (\<open>None\<close>: the call returned \<open>self\<close>).
\<close>

definition fit_header :: string where
  "fit_header =
     (let ft = ''FITTING IMPUTATION METHODS TO DATA...'';
          st = ''Strategies used to fit each column:''
      in ft @ [CHR 10] @ st @ [CHR 10] @ replicate (length st) (CHR ''-''))"

definition fit ::
  "('v, 's) env \<Rightarrow> ('v, 's) single_imputer \<Rightarrow> 'v table
   \<Rightarrow> ('v, 's) single_imputer \<times> string list \<times> error option" where
  "fit env self X =
     (case check_nan_columns env X of
        Some e \<Rightarrow> (self, [], Some e)
      | None \<Rightarrow>
     (case check_strategy_fit env (strategy_arg self) (columns X) of
        Inl e \<Rightarrow> (self, [], Some e)
      | Inr ss \<Rightarrow>
          let self1 = self\<lparr>strats := Some ss, statistics := Some []\<rparr>;
              out = (if verbose self then [fit_header] else [])
          in (case fit_loop env self1 X ss [] out of
                (st, out', err) \<Rightarrow> (self1\<lparr>statistics := Some st\<rparr>, out', err))))"

subsection \<open>transform\<close>

text \<open>The row positions where the column is missing, in order.\<close>

definition isnull_index :: "'v series \<Rightarrow> nat list" where
  "isnull_index s = filter (\<lambda>i. cells s ! i = None) [0..<length (cells s)]"

text \<open>
  \<open>X.loc[imp_ix, column] = value\<close> on the cells of the column: a scalar goes to every
  listed row, a sequence must have one value per listed row.
\<close>

fun loc_assign :: "nat list \<Rightarrow> 'v impute_result \<Rightarrow> 'v cell list \<Rightarrow> error + 'v cell list" where
  "loc_assign ix (Scalar v) cs =
     Inr (fold (\<lambda>(i, v) c. c[i := v]) (zip ix (replicate (length ix) v)) cs)"
| "loc_assign ix (Values vs) cs =
     (if length vs = length ix
      then Inr (fold (\<lambda>(i, v) c. c[i := v]) (zip ix vs) cs)
      else Inl (ValueError ''Must have equal len keys and value when setting with an iterable''))"

definition str_opt :: "string option \<Rightarrow> string" where
  "str_opt s = (case s of None \<Rightarrow> ''None'' | Some t \<Rightarrow> t)"

text \<open>What the loop of \<open>transform\<close> prints for one column when \<open>verbose\<close> is set.\<close>

definition narrate ::
  "('v, 's) imputer \<Rightarrow> string \<Rightarrow> nat list \<Rightarrow> error + string list" where
  "narrate imputer column imp_ix =
     (case imputer_stat_strategy imputer of
        Inl e \<Rightarrow> Inl e
      | Inr strat \<Rightarrow>
          Inr [''Transforming '' @ column @ '' with strategy '' @ quote (str_opt strat),
               if imp_ix \<noteq> []
               then ''Numer of imputations to perform: '' @ str_nat (length imp_ix)
               else ''No imputations, moving to next column...''])"

text \<open>
  The loop over \<open>self.statistics_.items()\<close>. It carries the table being imputed,
  \<open>self.imputed_\<close> and the console; an exception ends it and leaves all three as they
  are at that point.
\<close>

fun transform_loop ::
  "bool \<Rightarrow> (string \<times> ('v, 's) imputer) list \<Rightarrow> 'v table \<Rightarrow> (string \<times> nat list) list
   \<Rightarrow> string list \<Rightarrow> 'v table \<times> (string \<times> nat list) list \<times> string list \<times> error option" where
  "transform_loop vb [] X imp out = (X, imp, out, None)"
| "transform_loop vb ((column, imputer) # rest) X imp out =
     (case getitem X column of
        Inl e \<Rightarrow> (X, imp, out, Some e)
      | Inr col \<Rightarrow>
          let imp_ix = isnull_index col;
              imp' = AList.update column imp_ix imp
          in (case (if vb then narrate imputer column imp_ix else Inr []) of
                Inl e \<Rightarrow> (X, imp', out, Some e)
              | Inr pr \<Rightarrow>
                  if imp_ix = [] then transform_loop vb rest X imp' (out @ pr)
                  else (case imputer_impute imputer col of
                          Inl e \<Rightarrow> (X, imp', out @ pr, Some e)
                        | Inr vals \<Rightarrow>
                            (case loc_assign imp_ix vals (cells col) of
                               Inl e \<Rightarrow> (X, imp', out @ pr, Some e)
                             | Inr cs \<Rightarrow>
                                 transform_loop vb rest
                                   (AList.update column (col\<lparr>cells := cs\<rparr>) X) imp'
                                   (out @ pr)))))"

definition transform_header :: string where
  "transform_header =
     (let trans = ''PERFORMING IMPUTATIONS ON DATA BASED ON FIT...''
      in trans @ [CHR 10] @ replicate (length trans) (CHR ''-''))"

text \<open>
  The result of \<open>transform\<close>: the imputer after the call, the console, the content of the
  caller's DataFrame after the call, and the returned DataFrame or the exception.
\<close>

record ('v, 's) transform_result =
  tr_self :: "('v, 's) single_imputer"
  tr_console :: "string list"
  tr_caller :: "'v table"
  tr_outcome :: "error + 'v table"

definition transform ::
  "('v, 's) env \<Rightarrow> ('v, 's) single_imputer \<Rightarrow> 'v table \<Rightarrow> ('v, 's) transform_result" where
  "transform env self X =
     (case check_nan_columns env X of
        Some e \<Rightarrow> \<lparr>tr_self = self, tr_console = [], tr_caller = X, tr_outcome = Inl e\<rparr>
      | None \<Rightarrow>
     (case transform_strategy_validator self X of
        Some e \<Rightarrow> \<lparr>tr_self = self, tr_console = [], tr_caller = X, tr_outcome = Inl e\<rparr>
      | None \<Rightarrow>
          let out = (if verbose self then [transform_header] else []);
              self1 = self\<lparr>imputed := Some []\<rparr>
          in (case statistics self of
                None \<Rightarrow>
                  \<lparr>tr_self = self1, tr_console = out, tr_caller = X,
                   tr_outcome = Inl (AttributeError ''statistics_'')\<rparr>
              | Some st \<Rightarrow>
                  (case transform_loop (verbose self) st X [] out of
                     (X', imp, out', err) \<Rightarrow>
                       \<lparr>tr_self = self\<lparr>imputed := Some imp\<rparr>,
                        tr_console = out',
                        tr_caller = (if copy self then X else X'),
                        tr_outcome = (case err of None \<Rightarrow> Inr X' | Some e \<Rightarrow> Inl e)\<rparr>))))"

section \<open>Notions the properties are stated with\<close>

text \<open>The row positions missing in column \<open>c\<close> of table \<open>X\<close> (none for an absent column).\<close>

definition missing_rows :: "'v table \<Rightarrow> string \<Rightarrow> nat list" where
  "missing_rows X c = (case map_of X c of None \<Rightarrow> [] | Some s \<Rightarrow> isnull_index s)"

text \<open>
  \<open>kept s s'\<close>: the column \<open>s'\<close> has the dtype and the length of \<open>s\<close> and agrees with
  it at every row where \<open>s\<close> has a value.
\<close>

definition kept :: "'v series \<Rightarrow> 'v series \<Rightarrow> bool" where
  "kept s s' =
     (dtype s' = dtype s \<and> length (cells s') = length (cells s) \<and>
      list_all (\<lambda>i. cells s ! i = None \<or> cells s' ! i = cells s ! i) [0..<length (cells s)])"

text \<open>An imputation result that holds no missing value.\<close>

fun no_missing :: "'v impute_result \<Rightarrow> bool" where
  "no_missing (Scalar v) = (v \<noteq> None)"
| "no_missing (Values vs) = list_all (\<lambda>v. v \<noteq> None) vs"

text \<open>The stored imputer answers \<open>statistics_["strategy"]\<close>.\<close>

definition exposes_strategy :: "('v, 's) imputer \<Rightarrow> bool" where
  "exposes_strategy imputer =
     (case imputer_stat_strategy imputer of Inl e \<Rightarrow> False | Inr s \<Rightarrow> True)"

text \<open>The text \<open>name\<close> occurs in the message \<open>msg\<close>.\<close>

fun mentions :: "string \<Rightarrow> string \<Rightarrow> bool" where
  "mentions [] name = (name = [])"
| "mentions (c # cs) name = (prefix name (c # cs) \<or> mentions cs name)"

definition message :: "error \<Rightarrow> string" where
  "message e =
     (case e of TypeError m \<Rightarrow> m | ValueError m \<Rightarrow> m | AttributeError m \<Rightarrow> m
      | KeyError m \<Rightarrow> m | NotFittedError m \<Rightarrow> m | OtherError m \<Rightarrow> m)"

section \<open>A concrete setting\<close>

text \<open>
  A stand-in for the external imputer classes, to run the model on concrete tables: it
  caches the first observed value of the column at \<open>fit\<close> and fills every missing row
  with it. Its \<open>transform\<close> leaves the Series it is given alone and returns a filled
  copy, a new object. Its constructor takes no argument but \<open>fill_strategy\<close>.
\<close>

definition first_observed :: "'v cell list \<Rightarrow> 'v option" where
  "first_observed cs = (case filter (\<lambda>c. c \<noteq> None) cs of [] \<Rightarrow> None | c # r \<Rightarrow> c)"

definition fill :: "'v \<Rightarrow> 'v series \<Rightarrow> 'v series" where
  "fill v s = s\<lparr>cells := map (\<lambda>c. case c of None \<Rightarrow> Some v | Some w \<Rightarrow> Some w) (cells s)\<rparr>"

definition sample_methods :: "string \<Rightarrow> ('v, 'v option) ext_methods" where
  "sample_methods nm =
     \<lparr>ext_strategy = (\<lambda>s. nm),
      ext_fit = (\<lambda>s X. Inr (first_observed (cells X), Some (first_observed (cells X)))),
      ext_stat_strategy = (\<lambda>s. Inr (Some nm)),
      ext_impute = (\<lambda>s X. case s of None \<Rightarrow> Inl (NotFittedError ''statistics_'')
                                   | Some v \<Rightarrow> Inr (Scalar (Some v))),
      ext_truthy = (\<lambda>s. True),
      ext_transform = (\<lambda>s h X.
         case (s, h X) of
           (Some v, Some ser) \<Rightarrow> (Inr (Suc X), h(Suc X \<mapsto> fill v ser))
         | _ \<Rightarrow> (Inl (NotFittedError ''statistics_''), h))\<rparr>"

definition sample_class :: "string \<Rightarrow> string \<Rightarrow> ('v, 'v option, (string \<times> 'a) list) ext_class" where
  "sample_class cname nm =
     \<lparr>cls_str = cname, cls_name = Some cname, cls_has_fit_transform = True,
      cls_call = (\<lambda>kw.
         case filter (\<lambda>k. k \<noteq> ''fill_strategy'') (map fst (case kw of None \<Rightarrow> [] | Some d \<Rightarrow> d)) of
           [] \<Rightarrow> Inr (ExtObj (sample_methods nm) None)
         | k # ks \<Rightarrow>
             Inl (TypeError (''__init__() got an unexpected keyword argument '' @ quote k)))\<rparr>"

text \<open>
  The external helpers, as the specification describes them: a single name is broadcast
  to every column, keyword arguments are looked up by column name first and by strategy
  name second, and a table with an entirely missing column is refused.
\<close>

definition sample_env :: "(int, int option) env" where
  "sample_env =
     \<lparr>check_nan_columns = (\<lambda>X.
        if list_ex (\<lambda>(c, s). cells s \<noteq> [] \<and> list_all (\<lambda>v. v = None) (cells s)) X
        then Some (ValueError ''All values missing in column(s).'') else None),
      check_strategy_fit = (\<lambda>s cols.
        case s of
          StrategyStr m \<Rightarrow> Inr (map (\<lambda>c. (c, m)) cols)
        | StrategyIter ms \<Rightarrow>
            if length ms = length cols then Inr (zip cols ms)
            else Inl (ValueError ''Length of strategies must equal number of columns.'')
        | StrategyDict d \<Rightarrow>
            Inr (map (\<lambda>c. (c, case map_of d c of None \<Rightarrow> DEFAULT | Some m \<Rightarrow> m)) cols)),
      fit_init_params = (\<lambda>column method kw.
        Inr (case kw of
               None \<Rightarrow> None
             | Some d \<Rightarrow> (case map_of d column of Some a \<Rightarrow> Some a | None \<Rightarrow> map_of d method))),
      MeanImputer = sample_class ''MeanImputer'' ''mean'',
      MedianImputer = sample_class ''MedianImputer'' ''median'',
      ModeImputer = sample_class ''ModeImputer'' ''mode'',
      RandomImputer = sample_class ''RandomImputer'' ''random'',
      NormImputer = sample_class ''NormImputer'' ''norm'',
      CategoricalImputer = sample_class ''CategoricalImputer'' ''categorical'',
      InterpolateImputer = sample_class ''InterpolateImputer'' ''interpolate''\<rparr>"

definition sample_imputer :: "strategy_arg \<Rightarrow> bool \<Rightarrow> (int, int option) single_imputer" where
  "sample_imputer s vb =
     \<lparr>strategy_arg = s, imp_kwgs = None, copy = True, verbose = vb,
      strats = None, statistics = None, imputed = None\<rparr>"

definition sample_default :: "(int, int option) default_imputer" where
  "sample_default =
     \<lparr>num_kwgs = None, cat_kwgs = Some [(''fill_strategy'', AStr ''random'')],
      num_imputer = ExtObj (sample_methods ''mean'') None,
      cat_imputer = ExtObj (sample_methods ''mode'') None,
      series_statistics = None\<rparr>"

text \<open>Column \<open>A\<close> is 1, 2, missing, 4; column \<open>B\<close> is complete.\<close>

definition col_A :: "int series" where
  "col_A = \<lparr>dtype = Kind_f, cells = [Some 1, Some 2, None, Some 4]\<rparr>"

definition col_B :: "int series" where
  "col_B = \<lparr>dtype = Kind_i, cells = [Some 7, Some 8, Some 9, Some 7]\<rparr>"

definition sample_table :: "int table" where
  "sample_table = [(''A'', col_A), (''B'', col_B)]"

definition fitted_default :: "(int, int option) default_imputer" where
  "fitted_default =
     sample_default\<lparr>num_imputer := ExtObj (sample_methods ''mean'') (Some 1),
       series_statistics :=
         Some \<lparr>param = Some (ExtObj (sample_methods ''mean'') (Some 1)), strategy = Some ''mean''\<rparr>\<rparr>"


definition falsy_methods :: "('v, 'v option) ext_methods" where
  "falsy_methods = (sample_methods ''mean'')\<lparr>ext_truthy := (\<lambda>s. False)\<rparr>"

lemma sample_methods_sel [simp]:
  "ext_strategy (sample_methods nm) s = nm"
  "ext_fit (sample_methods nm) s X = Inr (first_observed (cells X), Some (first_observed (cells X)))"
  "ext_stat_strategy (sample_methods nm) s = Inr (Some nm)"
  "ext_impute (sample_methods nm) None X = Inl (NotFittedError ''statistics_'')"
  "ext_impute (sample_methods nm) (Some v) X = Inr (Scalar (Some v))"
  "ext_truthy (sample_methods nm) s = True"
  "ext_transform (sample_methods nm) s h Y =
     (case (s, h Y) of
           (Some v, Some ser) \<Rightarrow> (Inr (Suc Y), h(Suc Y \<mapsto> fill v ser))
         | _ \<Rightarrow> (Inl (NotFittedError ''statistics_''), h))"
  by (simp_all add: sample_methods_def)

section \<open>Properties of the default delegation engine\<close>




text \<open>
  C9. \<open>DefaultBaseImputer.transform\<close> and \<open>DefaultSingleImputer.transform\<close> return the
  reference \<open>X\<close> they were given whenever they return. With a null or falsy \<open>param\<close> the
  store is left as it is; otherwise the store after the call is the one the sub-imputer's
  \<open>transform\<close> leaves, the value that \<open>transform\<close> returns is dropped, and its exception is
  the exception of the call.
\<close>

theorem transform_returns_argument:
  "(fst (DefaultBaseImputer_transform self h X) = Inr r \<longrightarrow> r = X)
   \<and> (fst (DefaultSingleImputer_transform self h X) = Inr r \<longrightarrow> r = X)
   \<and> (series_statistics self = Some st \<and> param st = None \<longrightarrow>
        DefaultBaseImputer_transform self h X = (Inr X, h)
        \<and> DefaultSingleImputer_transform self h X = (Inr X, h))
   \<and> (series_statistics self = Some st \<and> param st = Some imp \<and> \<not> obj_truthy imp \<longrightarrow>
        DefaultBaseImputer_transform self h X = (Inr X, h)
        \<and> DefaultSingleImputer_transform self h X = (Inr X, h))
   \<and> (series_statistics self = Some st \<and> param st = Some imp \<and> obj_truthy imp
        \<and> obj_transform imp h X = (Inr r', h') \<longrightarrow>
        DefaultBaseImputer_transform self h X = (Inr X, h')
        \<and> DefaultSingleImputer_transform self h X = (Inr X, h'))
   \<and> (series_statistics self = Some st \<and> param st = Some imp \<and> obj_truthy imp
        \<and> obj_transform imp h X = (Inl e, h') \<longrightarrow>
        DefaultBaseImputer_transform self h X = (Inl e, h')
        \<and> DefaultSingleImputer_transform self h X = (Inl e, h'))"
proof (intro conjI impI)
  show "r = X" if "fst (DefaultBaseImputer_transform self h X) = Inr r"
    using that
    by (simp add: DefaultBaseImputer_transform_def
          split: option.splits sum.splits prod.splits if_splits)
  show "r = X" if "fst (DefaultSingleImputer_transform self h X) = Inr r"
    using that
    by (simp add: DefaultSingleImputer_transform_def split: sum.splits prod.splits)
qed (simp_all add: DefaultBaseImputer_transform_def DefaultSingleImputer_transform_def)

text \<open>
  With a sub-imputer that returns a filled copy, the Series handed back is the unfilled
  argument; the copy stays behind at another address.
\<close>

theorem transform_returns_argument_witness:
  "DefaultBaseImputer_transform fitted_default [5 \<mapsto> col_A] 5 = (Inr 5, [5 \<mapsto> col_A, 6 \<mapsto> fill 1 col_A])
   \<and> DefaultSingleImputer_transform fitted_default [5 \<mapsto> col_A] 5 =
        (Inr 5, [5 \<mapsto> col_A, 6 \<mapsto> fill 1 col_A])
   \<and> DefaultSingleImputer_transform
        (sample_default\<lparr>series_statistics := Some \<lparr>param = None, strategy = None\<rparr>\<rparr>)
        [5 \<mapsto> col_A] 5 = (Inr 5, [5 \<mapsto> col_A])
   \<and> DefaultSingleImputer_transform
        (sample_default\<lparr>series_statistics :=
           Some \<lparr>param = Some (ExtObj falsy_methods (Some 1)), strategy = Some ''mean''\<rparr>\<rparr>)
        [5 \<mapsto> col_A] 5 = (Inr 5, [5 \<mapsto> col_A])
   \<and> DefaultSingleImputer_transform fitted_default Map.empty 5 =
        (Inl (NotFittedError ''statistics_''), Map.empty)"
proof -
  let ?h = "[5 \<mapsto> col_A]"
  let ?ob = "ExtObj (sample_methods ''mean'') (Some (1::int))"
  have a: "DefaultBaseImputer_transform fitted_default ?h 5 = (Inr 5, ?h(6 \<mapsto> fill 1 col_A))
           \<and> DefaultSingleImputer_transform fitted_default ?h 5 = (Inr 5, ?h(6 \<mapsto> fill 1 col_A))"
    using transform_returns_argument [where self = fitted_default and h = ?h
          and X = 5 and r = 5 and imp = ?ob and r' = 6 and h' = "?h(6 \<mapsto> fill 1 col_A)"
          and st = "\<lparr>param = Some ?ob, strategy = Some ''mean''\<rparr>"]
    by (simp add: fitted_default_def sample_default_def obj_truthy_def obj_transform_def)
  have b: "DefaultSingleImputer_transform
        (sample_default\<lparr>series_statistics := Some \<lparr>param = None, strategy = None\<rparr>\<rparr>)
        ?h 5 = (Inr 5, ?h)"
    using transform_returns_argument [where
          self = "sample_default\<lparr>series_statistics := Some \<lparr>param = None, strategy = None\<rparr>\<rparr>"
          and h = ?h and X = 5 and st = "\<lparr>param = None, strategy = None\<rparr>"]
    by (simp add: sample_default_def)
  have c: "DefaultSingleImputer_transform
        (sample_default\<lparr>series_statistics :=
           Some \<lparr>param = Some (ExtObj falsy_methods (Some 1)), strategy = Some ''mean''\<rparr>\<rparr>)
        ?h 5 = (Inr 5, ?h)"
    using transform_returns_argument [where
          self = "sample_default\<lparr>series_statistics :=
           Some \<lparr>param = Some (ExtObj falsy_methods (Some 1)), strategy = Some ''mean''\<rparr>\<rparr>"
          and h = ?h and X = 5 and imp = "ExtObj falsy_methods (Some 1)"
          and st = "\<lparr>param = Some (ExtObj falsy_methods (Some 1)), strategy = Some ''mean''\<rparr>"]
    by (simp add: sample_default_def obj_truthy_def falsy_methods_def)
  have d: "DefaultSingleImputer_transform fitted_default Map.empty 5 =
        (Inl (NotFittedError ''statistics_''), Map.empty)"
    using transform_returns_argument [where self = fitted_default and h = Map.empty
          and X = 5 and imp = ?ob
          and e = "NotFittedError ''statistics_''" and h' = Map.empty
          and st = "\<lparr>param = Some ?ob, strategy = Some ''mean''\<rparr>"]
    by (simp add: fitted_default_def sample_default_def obj_truthy_def obj_transform_def)
  from a b c d show ?thesis by simp
qed


end
